theory Spec2Isabelle
  imports Main
begin

section \<open>Python values\<close>

text \<open>
  A Python \<open>str\<close> is a sequence of Unicode code points; \<open>len\<close>, slicing, \<open>strip\<close> and the
  regular expressions of the source all work on code points, so a string is modelled as the
  list of its code points. \<open>ascii\<close> embeds an ASCII literal.
\<close>

type_synonym ustr = "nat list"

definition ascii :: "string \<Rightarrow> ustr" where
  "ascii s = map of_char s"

text \<open>
  \<open>str.isspace\<close> for one code point: the white space that \<open>str.strip()\<close> removes
  (the characters of bidirectional type WS, B or S and of category Zs).
\<close>

definition isspace :: "nat \<Rightarrow> bool" where
  "isspace c =
     ((9 \<le> c \<and> c \<le> 13) \<or> (28 \<le> c \<and> c \<le> 32) \<or> c = 133 \<or> c = 160 \<or> c = 5760 \<or>
      (8192 \<le> c \<and> c \<le> 8202) \<or> c = 8232 \<or> c = 8233 \<or> c = 8239 \<or> c = 8287 \<or> c = 12288)"

definition strip :: "ustr \<Rightarrow> ustr" where
  "strip s = rev (dropWhile isspace (rev (dropWhile isspace s)))"

text \<open>\<open>str(n)\<close> for an \<open>int\<close>: the decimal digits, with a minus sign below zero.\<close>

fun str_nat :: "nat \<Rightarrow> ustr" where
  "str_nat n = (if n < 10 then [48 + n] else str_nat (n div 10) @ [48 + n mod 10])"

declare str_nat.simps [simp del]

definition str_int :: "int \<Rightarrow> ustr" where
  "str_int i = (if i < 0 then 45 # str_nat (nat (- i)) else str_nat (nat i))"

text \<open>\<open>"\n".join(lines)\<close>.\<close>

fun join_lines :: "ustr list \<Rightarrow> ustr" where
  "join_lines [] = []"
| "join_lines [l] = l"
| "join_lines (l # m # ls) = l @ [10] @ join_lines (m # ls)"

text \<open>\<open>pat in s\<close>: \<open>pat\<close> occurs in \<open>s\<close> as a contiguous run of code points.\<close>

fun starts_with :: "ustr \<Rightarrow> ustr \<Rightarrow> bool" where
  "starts_with s [] = True"
| "starts_with [] (p # ps) = False"
| "starts_with (x # xs) (p # ps) = (x = p \<and> starts_with xs ps)"

fun contains :: "ustr \<Rightarrow> ustr \<Rightarrow> bool" where
  "contains [] pat = (pat = [])"
| "contains (x # xs) pat = (starts_with (x # xs) pat \<or> contains xs pat)"

text \<open>
  The values a decoded JSON document is made of (\<open>json.loads\<close>): \<open>None\<close>, \<open>bool\<close>, \<open>int\<close>,
  \<open>float\<close> (a finite double \<open>m * 2 ^ e\<close>, given by \<open>m\<close> and \<open>e\<close>), \<open>str\<close>, \<open>list\<close> and \<open>dict\<close>.
  A \<open>dict\<close> is the list of its items in insertion order; its keys are distinct, and
  \<open>map_of\<close> is the lookup.
\<close>

datatype pyval =
    PNone
  | PBool bool
  | PInt int
  | PFloat int int
  | PStr ustr
  | PList "pyval list"
  | PDict "(ustr \<times> pyval) list"

text \<open>The exceptions of the program: all of them are subclasses of \<open>Exception\<close>.\<close>

datatype exn = AttributeError | JSONDecodeError | OtherException ustr

text \<open>\<open>bool(v)\<close>, the truth value that \<open>not v\<close> and \<open>if v\<close> test.\<close>

fun truthy :: "pyval \<Rightarrow> bool" where
  "truthy PNone = False"
| "truthy (PBool b) = b"
| "truthy (PInt i) = (i \<noteq> 0)"
| "truthy (PFloat m e) = (m \<noteq> 0)"
| "truthy (PStr s) = (s \<noteq> [])"
| "truthy (PList xs) = (xs \<noteq> [])"
| "truthy (PDict kvs) = (kvs \<noteq> [])"

text \<open>
  \<open>v.get(k, d)\<close>: only a \<open>dict\<close> has the method; on every other value of a decoded
  document the attribute lookup raises \<open>AttributeError\<close>.
\<close>

fun py_get :: "pyval \<Rightarrow> ustr \<Rightarrow> pyval \<Rightarrow> exn + pyval" where
  "py_get (PDict kvs) k d = Inr (case map_of kvs k of Some v \<Rightarrow> v | None \<Rightarrow> d)"
| "py_get _ k d = Inl AttributeError"

section \<open>The runtime\<close>

text \<open>
  What the program takes from the Python runtime and its libraries without fixing it in
  its own text is a parameter of the model; every theorem holds for each choice of it.
  \<^item> \<open>nd_value\<close>: the decimal value of a code point above ASCII when it is a decimal digit
    (Unicode category Nd), \<open>None\<close> otherwise. It is the class \<open>\d\<close> of \<open>re\<close> and the digits
    \<open>float\<close> accepts; the table belongs to the Unicode version of the interpreter.
  \<^item> \<open>render\<close>: \<open>str(v)\<close> for a \<open>float\<close>, a \<open>list\<close> or a \<open>dict\<close>.
  \<^item> \<open>exn_text\<close>: \<open>str(e)\<close> for an exception \<open>e\<close>.
  \<^item> \<open>pandas_other\<close>: what lines 227 to 312 of \<open>search_bids\<close> do with items that are not all
    flat records of strings (see \<open>to_records\<close> below): the log lines they append, and the
    exception they raise or the table they return.
\<close>

text \<open>
  The types the runtime speaks of. A cell of a table is a string, \<open>None\<close>, the missing
  value \<open>NaN\<close> or a number; a row has a cell for each column label, and a table
  (\<open>DataFrame\<close>) is its column labels and its rows.
\<close>

datatype cell = Text ustr | NoneCell | NaN | Num nat

type_synonym row = "(ustr \<times> cell) list"

record frame =
  columns :: "ustr list"
  rows :: "row list"

text \<open>
  The criteria of a search, as \<open>main\<close> passes them: the dates (\<open>None\<close>, a \<open>date\<close> of year,
  month and day, or a string), the keywords and the region code (strings), the price
  bounds (any value: \<open>parse_money\<close> takes what it is given), the mode of the contract-method
  filter, and the numbers of the page, of the rows and of the query basis.
\<close>

datatype date_input = NoDate | Date nat nat nat | DateText ustr

record criteria =
  start_date :: date_input
  end_date :: date_input
  inqry_div :: int
  bid_name :: ustr
  industry_name :: ustr
  region_code :: ustr
  min_price :: pyval
  max_price :: pyval
  contract_filter :: ustr
  page_no :: int
  num_rows :: int

record runtime =
  nd_value :: "nat \<Rightarrow> nat option"
  render :: "pyval \<Rightarrow> ustr"
  exn_text :: "exn \<Rightarrow> ustr"
  pandas_other :: "pyval list \<Rightarrow> criteria \<Rightarrow> ustr list \<times> (exn + frame)"

text \<open>\<open>str(v)\<close>, which is also what an f-string puts in place of \<open>{v}\<close>.\<close>

fun py_str :: "runtime \<Rightarrow> pyval \<Rightarrow> ustr" where
  "py_str rt PNone = ascii ''None''"
| "py_str rt (PBool b) = (if b then ascii ''True'' else ascii ''False'')"
| "py_str rt (PInt i) = str_int i"
| "py_str rt (PStr s) = s"
| "py_str rt v = render rt v"

text \<open>The decimal value of a code point, \<open>None\<close> when it is not a decimal digit.\<close>

definition decimal :: "runtime \<Rightarrow> nat \<Rightarrow> nat option" where
  "decimal rt c =
     (if c < 128 then (if 48 \<le> c \<and> c \<le> 57 then Some (c - 48) else None) else nd_value rt c)"

definition is_digit :: "runtime \<Rightarrow> nat \<Rightarrow> bool" where
  "is_digit rt c = (decimal rt c \<noteq> None)"

text \<open>\<open>re.sub(r"[^\d]", "", s)\<close>: every code point that is not a decimal digit is removed.\<close>

definition sub_non_digits :: "runtime \<Rightarrow> ustr \<Rightarrow> ustr" where
  "sub_non_digits rt s = filter (is_digit rt) s"

text \<open>The number a list of decimal digit values denotes.\<close>

definition digits_value :: "nat list \<Rightarrow> nat" where
  "digits_value ds = foldl (\<lambda>a d. 10 * a + d) 0 ds"

text \<open>
  \<open>float(s)\<close> on a string of decimal digits. (\<open>float\<close> reads signs, exponents and more; the
  program calls it after the substitution only, on digits, and every string that is not a
  nonempty run of decimal digits is \<open>ValueError\<close> here.) Amounts are kept as the integers
  they are: a \<open>float\<close> and an \<open>int64\<close> hold every integer below \<open>2 ^ 53\<close> exactly, and the
  rounding of larger ones is not modelled.
\<close>

definition py_float :: "runtime \<Rightarrow> ustr \<Rightarrow> exn + nat" where
  "py_float rt s =
     (case those (map (decimal rt) s) of
        Some (d # ds) \<Rightarrow> Inr (digits_value (d # ds))
      | _ \<Rightarrow> Inl (OtherException (ascii ''ValueError'')))"

section \<open>parse_money\<close>

text \<open>\<open>parse_money\<close> (app.py, lines 129 to 142); \<open>None\<close> is the \<open>None\<close> it returns.\<close>

definition parse_money :: "runtime \<Rightarrow> pyval \<Rightarrow> nat option" where
  "parse_money rt val =
     (if val = PNone then None
      else
        (let s = strip (py_str rt val) in
         if s = [] then None
         else
           (let s = sub_non_digits rt s in
            if s = [] then None
            else (case py_float rt s of Inr x \<Rightarrow> Some x | Inl e \<Rightarrow> None))))"

section \<open>safe_get_items\<close>

text \<open>The body of the \<open>try\<close> block of \<open>safe_get_items\<close> (app.py, lines 98 to 115).\<close>

definition safe_get_items_try :: "pyval \<Rightarrow> exn + pyval list" where
  "safe_get_items_try json_data =
    (case py_get json_data (ascii ''response'') (PDict []) of
       Inl e \<Rightarrow> Inl e
     | Inr response \<Rightarrow>
    (case py_get response (ascii ''body'') (PDict []) of
       Inl e \<Rightarrow> Inl e
     | Inr body \<Rightarrow>
    (case py_get body (ascii ''items'') PNone of
       Inl e \<Rightarrow> Inl e
     | Inr items \<Rightarrow>
         if \<not> truthy items then Inr []
         else (case items of
                 PList xs \<Rightarrow> Inr xs
               | PDict kvs \<Rightarrow>
                   (case py_get items (ascii ''item'') PNone of
                      Inl e \<Rightarrow> Inl e
                    | Inr item \<Rightarrow>
                        (case item of
                           PList ys \<Rightarrow> Inr ys
                         | PDict d \<Rightarrow> Inr [item]
                         | _ \<Rightarrow> Inr []))
               | _ \<Rightarrow> Inr []))))"

text \<open>\<open>safe_get_items\<close> with its handler: \<open>except Exception: return []\<close>.\<close>

definition safe_get_items :: "pyval \<Rightarrow> exn + pyval list" where
  "safe_get_items json_data =
    (case safe_get_items_try json_data of Inl e \<Rightarrow> Inr [] | Inr xs \<Rightarrow> Inr xs)"

section \<open>The request parameters\<close>

text \<open>
  \<open>normalize_date_str\<close> (app.py, lines 120 to 126). For a \<open>date\<close> object
  \<open>strftime("%Y-%m-%d")\<close> writes the year, the month and the day with four, two and two
  digits (the years of a date picker have four).
\<close>

definition pad_left :: "nat \<Rightarrow> ustr \<Rightarrow> ustr" where
  "pad_left n s = replicate (n - length s) 48 @ s"

definition strftime_ymd :: "nat \<Rightarrow> nat \<Rightarrow> nat \<Rightarrow> ustr" where
  "strftime_ymd y m d =
     pad_left 4 (str_nat y) @ [45] @ pad_left 2 (str_nat m) @ [45] @ pad_left 2 (str_nat d)"

fun normalize_date_str :: "date_input \<Rightarrow> ustr" where
  "normalize_date_str NoDate = []"
| "normalize_date_str (Date y m d) = strftime_ymd y m d"
| "normalize_date_str (DateText s) = (if s = [] then [] else strip s)"

text \<open>
  The parameters of the request (\<open>search_bids\<close>, lines 167 to 196): a \<open>dict\<close> from names to
  strings, in insertion order. The keywords and the region code are strings, so \<open>str\<close> of
  the region code is the code itself.
\<close>

definition build_params :: "ustr \<Rightarrow> criteria \<Rightarrow> (ustr \<times> ustr) list" where
  "build_params service_key c =
     (let start_str = normalize_date_str (start_date c);
          end_str = normalize_date_str (end_date c);
          inqry_bgn = (if start_str \<noteq> [] then filter (\<lambda>x. x \<noteq> 45) start_str @ ascii ''0000'' else []);
          inqry_end = (if end_str \<noteq> [] then filter (\<lambda>x. x \<noteq> 45) end_str @ ascii ''2359'' else []);
          params0 =
            [(ascii ''serviceKey'', service_key),
             (ascii ''pageNo'', str_int (page_no c)),
             (ascii ''numOfRows'', str_int (num_rows c)),
             (ascii ''inqryDiv'', str_int (inqry_div c)),
             (ascii ''type'', ascii ''json'')];
          params1 = (if inqry_bgn \<noteq> [] then params0 @ [(ascii ''inqryBgnDt'', inqry_bgn)] else params0);
          params2 = (if inqry_end \<noteq> [] then params1 @ [(ascii ''inqryEndDt'', inqry_end)] else params1);
          params3 =
            (if bid_name c \<noteq> [] then params2 @ [(ascii ''bidNtceNm'', strip (bid_name c))]
             else params2);
          params4 =
            (if industry_name c \<noteq> [] then params3 @ [(ascii ''indstrytyNm'', strip (industry_name c))]
             else params3);
          region = strip (region_code c)
      in if region \<noteq> []
         then params4 @ [(ascii ''prtcptLmtRgnCd'', if length region = 1 then 48 # region else region)]
         else params4)"

section \<open>The request\<close>

text \<open>
  \<open>requests.get\<close> raises, or returns a response: its status code, its text, and what
  \<open>resp.json()\<close> does (the decoded document, or the exception raised). The world keeps how
  the server answers each request and the requests sent so far.
\<close>

datatype http_reply = Raised exn | Reply int ustr "exn + pyval"

record world =
  respond :: "(ustr \<times> ustr) list \<Rightarrow> http_reply"
  sent :: "(ustr \<times> ustr) list list"

definition requests_get :: "world \<Rightarrow> (ustr \<times> ustr) list \<Rightarrow> http_reply \<times> world" where
  "requests_get w params = (respond w params, w\<lparr>sent := sent w @ [params]\<rparr>)"

section \<open>Tables\<close>

text \<open>\<open>pd.DataFrame()\<close>, and \<open>df.empty\<close>: no column or no row.\<close>

definition empty_frame :: frame where
  "empty_frame = \<lparr>columns = [], rows = []\<rparr>"

definition frame_empty :: "frame \<Rightarrow> bool" where
  "frame_empty df = (columns df = [] \<or> rows df = [])"

text \<open>
  The cell of a row under a column label, and a row with one cell set. Where a record
  has no value for a label the cell is \<open>NaN\<close>.
\<close>

definition cell_of :: "row \<Rightarrow> ustr \<Rightarrow> cell" where
  "cell_of r c = (case map_of r c of Some v \<Rightarrow> v | None \<Rightarrow> NaN)"

fun put_cell :: "ustr \<Rightarrow> cell \<Rightarrow> row \<Rightarrow> row" where
  "put_cell c v [] = [(c, v)]"
| "put_cell c v ((k, u) # r) = (if k = c then (k, v) # r else (k, u) # put_cell c v r)"

text \<open>\<open>df[c] = ...\<close>: the column is replaced, or added as the last one.\<close>

definition set_column :: "frame \<Rightarrow> ustr \<Rightarrow> (row \<Rightarrow> cell) \<Rightarrow> frame" where
  "set_column df c f =
     \<lparr>columns = (if c \<in> set (columns df) then columns df else columns df @ [c]),
      rows = map (\<lambda>r. put_cell c (f r) r) (rows df)\<rparr>"

text \<open>\<open>df[mask]\<close>: the rows the mask holds for; the columns stay.\<close>

definition select_rows :: "(row \<Rightarrow> bool) \<Rightarrow> frame \<Rightarrow> frame" where
  "select_rows p df = \<lparr>columns = columns df, rows = filter p (rows df)\<rparr>"

text \<open>
  The items the model follows through pandas are flat records: a \<open>dict\<close> whose values are
  strings or \<open>None\<close>, which is what the service sends. For any other list of items
  \<open>to_records\<close> is \<open>None\<close>, and the runtime's \<open>pandas_other\<close> stands for what pandas does.
\<close>

fun to_cell :: "pyval \<Rightarrow> cell option" where
  "to_cell (PStr s) = Some (Text s)"
| "to_cell PNone = Some NoneCell"
| "to_cell _ = None"

fun to_record :: "pyval \<Rightarrow> row option" where
  "to_record (PDict kvs) = those (map (\<lambda>(k, v). map_option (Pair k) (to_cell v)) kvs)"
| "to_record _ = None"

definition to_records :: "pyval list \<Rightarrow> row list option" where
  "to_records items = those (map to_record items)"

text \<open>
  \<open>pd.json_normalize\<close> on flat records: the columns are the keys in the order they first
  appear, and a record without a key has \<open>NaN\<close> in that column.
\<close>

definition json_normalize :: "row list \<Rightarrow> frame" where
  "json_normalize recs =
     (let cols = rev (remdups (rev (concat (map (map fst) recs))))
      in \<lparr>columns = cols, rows = map (\<lambda>r. map (\<lambda>c. (c, cell_of r c)) cols) recs\<rparr>)"

text \<open>\<open>.astype(str)\<close> on one cell.\<close>

fun astype_str :: "cell \<Rightarrow> ustr" where
  "astype_str (Text s) = s"
| "astype_str NoneCell = ascii ''None''"
| "astype_str NaN = ascii ''nan''"
| "astype_str (Num n) = str_nat n"

text \<open>
  \<open>pd.to_numeric(..., errors="coerce")\<close> on one string of the column after the substitution,
  which leaves decimal digits only: pandas reads the ASCII digits \<open>0\<close> to \<open>9\<close>, and every
  other string (the empty one, a digit of another script) becomes \<open>NaN\<close>, here \<open>None\<close>.
\<close>

definition ascii_digit :: "nat \<Rightarrow> bool" where
  "ascii_digit c = (48 \<le> c \<and> c \<le> 57)"

definition pd_to_numeric :: "ustr \<Rightarrow> nat option" where
  "pd_to_numeric s =
     (if s \<noteq> [] \<and> list_all ascii_digit s
      then Some (digits_value (map (\<lambda>c. c - 48) s)) else None)"

text \<open>\<open>.fillna(0)\<close> on one value.\<close>

fun fillna0 :: "nat option \<Rightarrow> cell" where
  "fillna0 (Some n) = Num n"
| "fillna0 None = Num 0"

text \<open>The column \<open>_presmpt_num\<close> (\<open>search_bids\<close>, lines 230 to 236).\<close>

definition add_presmpt_num :: "runtime \<Rightarrow> frame \<Rightarrow> frame" where
  "add_presmpt_num rt df =
     (if ascii ''presmptPrce'' \<in> set (columns df)
      then set_column df (ascii ''_presmpt_num'')
             (\<lambda>r. fillna0 (pd_to_numeric (sub_non_digits rt (astype_str (cell_of r (ascii ''presmptPrce''))))))
      else set_column df (ascii ''_presmpt_num'') (\<lambda>r. Num 0))"

text \<open>The number in the column \<open>_presmpt_num\<close> of a row.\<close>

definition presmpt_num :: "row \<Rightarrow> nat" where
  "presmpt_num r = (case cell_of r (ascii ''_presmpt_num'') of Num n \<Rightarrow> n | _ \<Rightarrow> 0)"

section \<open>The texts of the log\<close>

text \<open>
  The string literals of \<open>search_bids\<close>, as the code points of the Korean text in app.py.
\<close>

text \<open>Line 165: the SERVICE_KEY is not set.\<close>

definition msg_no_key :: ustr where
  "msg_no_key =
     [10060, 32, 83, 69, 82, 86, 73, 67, 69, 95, 75, 69, 89, 44032, 32, 49444, 51221,
       46104, 51648, 32, 50506, 50520, 49845, 45768, 45796, 46]"

text \<open>Line 200: the request to the API is done.\<close>

definition msg_request_done :: ustr where
  "msg_request_done =
     [128206, 32, 45208, 46972, 51109, 53552, 32, 65, 80, 73, 32, 50836, 52397, 32,
       50756, 47308]"

text \<open>Line 203: HTTP error, before the status code.\<close>

definition msg_http_error :: ustr where
  "msg_http_error =
     [10060, 32, 72, 84, 84, 80, 32, 50724, 47448, 58, 32]"

text \<open>Line 209: the JSON could not be parsed.\<close>

definition msg_json_failed :: ustr where
  "msg_json_failed =
     [10060, 32, 74, 83, 79, 78, 32, 54028, 49905, 32, 49892, 54056]"

text \<open>Line 216: API response code, before the code.\<close>

definition msg_api_code :: ustr where
  "msg_api_code =
     [65, 80, 73, 32, 51025, 45813, 32, 53076, 46300, 58, 32]"

text \<open>Line 216: message, before the message.\<close>

definition msg_api_message :: ustr where
  "msg_api_message =
     [44, 32, 47700, 49884, 51648, 58, 32]"

text \<open>Line 219: condition not met, or parameter error.\<close>

definition msg_bad_code :: ustr where
  "msg_bad_code =
     [10060, 32, 51312, 44148, 32, 48520, 52649, 51313, 32, 46608, 45716, 32, 54028,
       46972, 48120, 53552, 32, 50724, 47448]"

text \<open>Line 224: no data for the search condition.\<close>

definition msg_no_data :: ustr where
  "msg_no_data =
     [9888, 32, 44160, 49353, 32, 51312, 44148, 50640, 32, 54644, 45817, 54616, 45716,
       32, 45936, 51060, 53552, 32, 50630, 51020]"

text \<open>Line 243: filter, at least the minimum base price.\<close>

definition msg_min_filter :: ustr where
  "msg_min_filter =
     [128315, 32, 52572, 49548, 32, 44592, 52488, 44552, 50529, 32, 51060, 49345, 32,
       54596, 53552, 58, 32]"

text \<open>Line 246: filter, at most the maximum base price.\<close>

definition msg_max_filter :: ustr where
  "msg_max_filter =
     [128314, 32, 52572, 45824, 32, 44592, 52488, 44552, 50529, 32, 51060, 54616, 32,
       54596, 53552, 58, 32]"

text \<open>Lines 243 and 246: won, after the amount.\<close>

definition msg_won :: ustr where
  "msg_won =
     [50896]"

text \<open>Line 252: contract method filter, negotiated contracts only.\<close>

definition msg_only_private :: ustr where
  "msg_only_private =
     [9989, 32, 44228, 50557, 48169, 48277, 32, 54596, 53552, 58, 32, 49688, 51032,
       44228, 50557, 47564]"

text \<open>Line 255: contract method filter, negotiated contracts excluded.\<close>

definition msg_exclude_private :: ustr where
  "msg_exclude_private =
     [9989, 32, 44228, 50557, 48169, 48277, 32, 54596, 53552, 58, 32, 49688, 51032,
       44228, 50557, 32, 51228, 50808]"

text \<open>Line 257: contract method filter, all.\<close>

definition msg_all :: ustr where
  "msg_all =
     [9989, 32, 44228, 50557, 48169, 48277, 32, 54596, 53552, 58, 32, 51204, 52404]"

text \<open>Line 259: no column cntrctCnclsMthdNm (contract method filter not applied).\<close>

definition msg_no_column :: ustr where
  "msg_no_column =
     [9888, 32, 99, 110, 116, 114, 99, 116, 67, 110, 99, 108, 115, 77, 116, 104, 100,
       78, 109, 32, 52972, 47100, 32, 50630, 51020, 32, 40, 44228, 50557, 48169, 48277,
       32, 54596, 53552, 32, 48120, 51201, 50857, 41]"

text \<open>Line 262: no announcement left after the filters.\<close>

definition msg_none_left :: ustr where
  "msg_none_left =
     [9888, 32, 54596, 53552, 32, 51201, 50857, 32, 54980, 32, 45224, 51008, 32, 44277,
       44256, 32, 50630, 51020]"

text \<open>Line 310: number of announcements (after all filters), before the number.\<close>

definition msg_count :: ustr where
  "msg_count =
     [128202, 32, 44277, 44256, 32, 44148, 49688, 40, 47784, 46304, 32, 54596, 53552,
       32, 51201, 50857, 32, 54980, 41, 58, 32]"

text \<open>Line 310: the counter word after the number.\<close>

definition msg_count_unit :: ustr where
  "msg_count_unit =
     [44148]"

text \<open>Line 315: an exception occurred, before its text.\<close>

definition msg_exception :: ustr where
  "msg_exception =
     [128165, 32, 50696, 50808, 32, 48156, 49373, 58, 32]"

text \<open>Lines 251 and 254: the marker of a negotiated contract.\<close>

definition private_marker :: ustr where
  "private_marker =
     [49688, 51032]"

text \<open>The columns shown (\<open>prefer_cols\<close>, lines 266 to 278) and their labels (\<open>col_map\<close>, lines 292 to 304).\<close>

definition prefer_cols :: "ustr list" where
  "prefer_cols =
     [ascii ''bidNtceNo'',
      ascii ''bidNtceOrd'',
      ascii ''bidNtceNm'',
      ascii ''ntceInsttNm'',
      ascii ''pblancDate'',
      ascii ''opengDt'',
      ascii ''indstrytyNm'',
      ascii ''presmptPrce'',
      ascii ''prtcptLmtRgnCd'',
      ascii ''prtcptLmtRgnNm'',
      ascii ''cntrctCnclsMthdNm'']"

definition col_map :: "(ustr \<times> ustr) list" where
  "col_map =
     [(ascii ''bidNtceNo'', [44277, 44256, 48264, 54840]),
      (ascii ''bidNtceOrd'', [44277, 44256, 52264, 49688]),
      (ascii ''bidNtceNm'', [44277, 44256, 47749]),
      (ascii ''ntceInsttNm'', [44277, 44256, 44592, 44288]),
      (ascii ''pblancDate'', [44277, 44256, 44172, 49884, 51068, 49884]),
      (ascii ''opengDt'', [44060, 52272, 51068, 49884]),
      (ascii ''indstrytyNm'', [50629, 51333, 47749]),
      (ascii ''presmptPrce'', [44592, 52488, 44552, 50529]),
      (ascii ''prtcptLmtRgnCd'', [52280, 44032, 51228, 54620, 51648, 50669, 53076, 46300]),
      (ascii ''prtcptLmtRgnNm'', [52280, 44032, 51228, 54620, 51648, 50669, 47749]),
      (ascii ''cntrctCnclsMthdNm'', [44228, 50557, 48169, 48277])]"

section \<open>The filters\<close>

text \<open>
  \<open>f"{x:,.0f}"\<close> and \<open>f"{int(x):,}"\<close> for an amount: its digits in groups of three, with
  commas.
\<close>

fun group3 :: "nat \<Rightarrow> ustr" where
  "group3 n =
     (if n < 1000 then str_nat n
      else group3 (n div 1000) @ [44] @ pad_left 3 (str_nat (n mod 1000)))"

declare group3.simps [simp del]

text \<open>
  The price range (\<open>search_bids\<close>, lines 238 to 246), on the table and the log lines so far.
\<close>

definition price_filter :: "runtime \<Rightarrow> criteria \<Rightarrow> frame \<times> ustr list \<Rightarrow> frame \<times> ustr list" where
  "price_filter rt c s =
     (let min_val = parse_money rt (min_price c);
          max_val = parse_money rt (max_price c);
          s1 = (case min_val of
                  Some lo \<Rightarrow>
                    (select_rows (\<lambda>r. lo \<le> presmpt_num r) (fst s),
                     snd s @ [msg_min_filter @ group3 lo @ msg_won])
                | None \<Rightarrow> s)
      in (case max_val of
            Some hi \<Rightarrow>
              (select_rows (\<lambda>r. presmpt_num r \<le> hi) (fst s1),
               snd s1 @ [msg_max_filter @ group3 hi @ msg_won])
          | None \<Rightarrow> s1))"

text \<open>
  The contract method (\<open>search_bids\<close>, lines 249 to 259). \<open>.str.contains\<close> searches for the
  marker, which has no special character of a regular expression, as a substring.
\<close>

definition is_private :: "row \<Rightarrow> bool" where
  "is_private r = contains (astype_str (cell_of r (ascii ''cntrctCnclsMthdNm''))) private_marker"

definition contract_stage :: "criteria \<Rightarrow> frame \<times> ustr list \<Rightarrow> frame \<times> ustr list" where
  "contract_stage c s =
     (if ascii ''cntrctCnclsMthdNm'' \<in> set (columns (fst s))
      then (if contract_filter c = ascii ''only_private''
            then (select_rows is_private (fst s), snd s @ [msg_only_private])
            else if contract_filter c = ascii ''exclude_private''
            then (select_rows (\<lambda>r. \<not> is_private r) (fst s), snd s @ [msg_exclude_private])
            else (fst s, snd s @ [msg_all]))
      else (fst s, snd s @ [msg_no_column]))"

section \<open>The table shown\<close>

text \<open>\<open>df[cols]\<close>: the columns named, in that order.\<close>

definition project :: "frame \<Rightarrow> ustr list \<Rightarrow> frame" where
  "project df cols = \<lparr>columns = cols, rows = map (\<lambda>r. map (\<lambda>c. (c, cell_of r c)) cols) (rows df)\<rparr>"

text \<open>\<open>df.rename(columns=m)\<close> for the labels \<open>m\<close>.\<close>

definition rename_columns :: "(ustr \<times> ustr) list \<Rightarrow> frame \<Rightarrow> frame" where
  "rename_columns m df =
     (let label = (\<lambda>c. case map_of m c of Some l \<Rightarrow> l | None \<Rightarrow> c)
      in \<lparr>columns = map label (columns df),
          rows = map (map (\<lambda>(k, v). (label k, v))) (rows df)\<rparr>)"

text \<open>
  The projection, the price written with commas, and the Korean labels (\<open>search_bids\<close>,
  lines 280 to 308).
\<close>

definition df_view :: "frame \<Rightarrow> frame" where
  "df_view df =
     (let exist = filter (\<lambda>c. c \<in> set (columns df)) prefer_cols;
          view = project df exist;
          view1 =
            (if ascii ''presmptPrce'' \<in> set (columns view)
             then \<lparr>columns = columns view,
                   rows = map2 (\<lambda>v r. put_cell (ascii ''presmptPrce'') (Text (group3 (presmpt_num r))) v)
                            (rows view) (rows df)\<rparr>
             else view)
      in rename_columns (filter (\<lambda>(k, v). k \<in> set (columns view1)) col_map) view1)"

section \<open>search_bids\<close>

text \<open>
  A step of the \<open>try\<close> block ends with the log lines written so far and either the exception
  it raised or the pair it returned. Lines 227 to 246 on flat records give the table with
  its derived price and the price range applied (\<open>priced\<close>); lines 227 to 312 are
  \<open>shape_records\<close>.
\<close>

definition priced :: "runtime \<Rightarrow> criteria \<Rightarrow> row list \<Rightarrow> ustr list \<Rightarrow> frame \<times> ustr list" where
  "priced rt c recs log_lines =
     price_filter rt c (add_presmpt_num rt (json_normalize recs), log_lines)"

definition shape_records ::
  "runtime \<Rightarrow> criteria \<Rightarrow> row list \<Rightarrow> ustr list \<Rightarrow> ustr list \<times> (exn + ustr \<times> frame)" where
  "shape_records rt c recs log_lines =
     (let s1 = priced rt c recs log_lines;
          s2 = contract_stage c s1
      in if frame_empty (fst s2)
         then (let log2 = snd s2 @ [msg_none_left] in (log2, Inr (join_lines log2, empty_frame)))
         else (let view = df_view (fst s2);
                   log2 = snd s2 @ [msg_count @ str_nat (length (rows view)) @ msg_count_unit]
               in (log2, Inr (join_lines log2, view))))"

text \<open>Lines 227 to 312 on any items.\<close>

definition shape_items ::
  "runtime \<Rightarrow> criteria \<Rightarrow> pyval list \<Rightarrow> ustr list \<Rightarrow> ustr list \<times> (exn + ustr \<times> frame)" where
  "shape_items rt c items log_lines =
     (case to_records items of
        Some recs \<Rightarrow> shape_records rt c recs log_lines
      | None \<Rightarrow>
          (case pandas_other rt items c of
             (appended, Inl e) \<Rightarrow> (log_lines @ appended, Inl e)
           | (appended, Inr df) \<Rightarrow>
               (log_lines @ appended, Inr (join_lines (log_lines @ appended), df))))"

text \<open>The header of the response (lines 213 to 215): the result code and the message.\<close>

definition read_header :: "pyval \<Rightarrow> exn + pyval \<times> pyval" where
  "read_header data =
     (case py_get data (ascii ''response'') (PDict []) of
        Inl e \<Rightarrow> Inl e
      | Inr response \<Rightarrow>
     (case py_get response (ascii ''header'') (PDict []) of
        Inl e \<Rightarrow> Inl e
      | Inr header \<Rightarrow>
     (case py_get header (ascii ''resultCode'') PNone of
        Inl e \<Rightarrow> Inl e
      | Inr code \<Rightarrow>
     (case py_get header (ascii ''resultMsg'') PNone of
        Inl e \<Rightarrow> Inl e
      | Inr msg \<Rightarrow> Inr (code, msg)))))"

text \<open>Lines 222 to 312: the items are taken out of the document and shaped.\<close>

definition shape_body ::
  "runtime \<Rightarrow> criteria \<Rightarrow> pyval \<Rightarrow> ustr list \<Rightarrow> ustr list \<times> (exn + ustr \<times> frame)" where
  "shape_body rt c data log_lines =
     (case safe_get_items data of
        Inl e \<Rightarrow> (log_lines, Inl e)
      | Inr items \<Rightarrow>
          if items = []
          then (let log2 = log_lines @ [msg_no_data]
                in (log2, Inr (join_lines log2, empty_frame)))
          else shape_items rt c items log_lines)"

text \<open>Lines 213 to 312: the decoded document, after the line of line 200 is in the log.\<close>

definition shape_response ::
  "runtime \<Rightarrow> criteria \<Rightarrow> pyval \<Rightarrow> ustr list \<Rightarrow> ustr list \<times> (exn + ustr \<times> frame)" where
  "shape_response rt c data log_lines =
     (case read_header data of
        Inl e \<Rightarrow> (log_lines, Inl e)
      | Inr (code, msg) \<Rightarrow>
          (let log1 = log_lines @ [msg_api_code @ py_str rt code @ msg_api_message @ py_str rt msg]
           in if code \<noteq> PStr (ascii ''00'')
              then (let log2 = log1 @ [msg_bad_code] in (log2, Inr (join_lines log2, empty_frame)))
              else shape_body rt c data log1))"

text \<open>The \<open>try\<close> block (lines 199 to 312), given what \<open>requests.get\<close> did.\<close>

definition try_block ::
  "runtime \<Rightarrow> criteria \<Rightarrow> http_reply \<Rightarrow> ustr list \<times> (exn + ustr \<times> frame)" where
  "try_block rt c reply =
     (case reply of
        Raised e \<Rightarrow> ([], Inl e)
      | Reply status_code body_text decoded \<Rightarrow>
          (let log1 = [msg_request_done]
           in if status_code \<noteq> 200
              then (let log2 = log1 @ [msg_http_error @ str_int status_code]
                    in (log2, Inr (join_lines log2, empty_frame)))
              else (case decoded of
                      Inl e \<Rightarrow>
                        if e = JSONDecodeError
                        then (let log2 = log1 @ [msg_json_failed, take 200 body_text]
                              in (log2, Inr (join_lines log2, empty_frame)))
                        else (log1, Inl e)
                    | Inr data \<Rightarrow> shape_response rt c data log1)))"

text \<open>
  \<open>search_bids\<close> (lines 148 to 316): the pair it returns, or the exception that leaves it,
  and the world after it.
\<close>

definition search_bids ::
  "runtime \<Rightarrow> world \<Rightarrow> ustr \<Rightarrow> criteria \<Rightarrow> (exn + ustr \<times> frame) \<times> world" where
  "search_bids rt w service_key c =
     (if service_key = [] then (Inr (msg_no_key, empty_frame), w)
      else
        (let params = build_params service_key c;
             (reply, w1) = requests_get w params
         in (case try_block rt c reply of
               (log_lines, Inr result) \<Rightarrow> (Inr result, w1)
             | (log_lines, Inl e) \<Rightarrow>
                 (Inr (join_lines (log_lines @ [msg_exception @ exn_text rt e]), empty_frame), w1))))"

section \<open>The envelope of the response\<close>

text \<open>
  The path of the specification, in its words: descend \<open>response\<close>, \<open>body\<close>, \<open>items\<close>, each
  step through a mapping that has the key. \<open>items_at\<close> is \<open>None\<close> when the path is absent.
\<close>

definition field :: "pyval \<Rightarrow> ustr \<Rightarrow> pyval option" where
  "field v k = (case v of PDict kvs \<Rightarrow> map_of kvs k | _ \<Rightarrow> None)"

definition items_at :: "pyval \<Rightarrow> pyval option" where
  "items_at d =
     Option.bind (Option.bind (field d (ascii ''response'')) (\<lambda>r. field r (ascii ''body'')))
       (\<lambda>b. field b (ascii ''items''))"

text \<open>The envelope with the given value under \<open>response\<close>, \<open>body\<close>, \<open>items\<close>.\<close>

definition envelope :: "pyval \<Rightarrow> pyval" where
  "envelope items =
     PDict [(ascii ''response'', PDict [(ascii ''body'', PDict [(ascii ''items'', items)])])]"

section \<open>Notions of the specification\<close>


text \<open>The base price a record carries and the text of its contract method, when it has
  one: the string under the key, if the key is there with a string.\<close>

definition text_at :: "row \<Rightarrow> ustr \<Rightarrow> ustr option" where
  "text_at r k = (case map_of r k of Some (Text s) \<Rightarrow> Some s | _ \<Rightarrow> None)"





text \<open>A record is a negotiated contract: the text of its contract method contains the
  marker. A record without that text is not.\<close>

definition negotiated :: "row \<Rightarrow> bool" where
  "negotiated r =
     (case text_at r (ascii ''cntrctCnclsMthdNm'') of
        Some s \<Rightarrow> contains s private_marker
      | None \<Rightarrow> False)"




section \<open>Inputs for the examples\<close>

text \<open>A runtime, and criteria with nothing filled in.\<close>

definition rt0 :: runtime where
  "rt0 = \<lparr>nd_value = (\<lambda>c. None), render = (\<lambda>v. []), exn_text = (\<lambda>e. []),
          pandas_other = (\<lambda>items c. ([], Inl AttributeError))\<rparr>"

definition c0 :: criteria where
  "c0 = \<lparr>start_date = NoDate, end_date = NoDate, inqry_div = 1, bid_name = [],
          industry_name = [], region_code = [], min_price = PStr [], max_price = PStr [],
          contract_filter = ascii ''all'', page_no = 1, num_rows = 100\<rparr>"





definition method_recs :: "row list" where
  "method_recs =
     [[(ascii ''cntrctCnclsMthdNm'', Text [51068, 48152, 44221, 51137])],
      [(ascii ''cntrctCnclsMthdNm'', Text [49688, 51032, 44228, 50557])],
      [(ascii ''cntrctCnclsMthdNm'', Text [49688, 51032, 44228, 50557, 40, 49548, 50529, 41])]]"

definition no_method_rec :: row where
  "no_method_rec = [(ascii ''bidNtceNo'', Text (ascii ''A4''))]"



text \<open>A world in which every request gets the same reply and none was sent yet, and
  decoded documents: one with the result code 99, one whose header is \<open>None\<close>, and one
  with the result code 00 and no items.\<close>

definition serving :: "http_reply \<Rightarrow> world" where
  "serving reply = \<lparr>respond = (\<lambda>p. reply), sent = []\<rparr>"

definition doc_code99 :: pyval where
  "doc_code99 =
     PDict [(ascii ''response'',
       PDict [(ascii ''header'',
         PDict [(ascii ''resultCode'', PStr (ascii ''99'')),
                (ascii ''resultMsg'', PStr (ascii ''ERROR''))])])]"

definition doc_no_header :: pyval where
  "doc_no_header = PDict [(ascii ''response'', PDict [(ascii ''header'', PNone)])]"

definition doc_no_items :: pyval where
  "doc_no_items =
     PDict [(ascii ''response'',
       PDict [(ascii ''header'',
                PDict [(ascii ''resultCode'', PStr (ascii ''00'')),
                       (ascii ''resultMsg'', PStr (ascii ''OK''))]),
              (ascii ''body'', PDict [])])]"

section \<open>Properties of the extractor\<close>

lemma ascii_keys_differ:
  "ascii ''items'' \<noteq> ascii ''item''" "ascii ''response'' \<noteq> ascii ''body''"
  by (simp_all add: ascii_def)

lemma items_at_envelope: "items_at (envelope v) = Some v"
  by (simp add: items_at_def envelope_def field_def)

text \<open>
  C1. For every decoded document \<open>safe_get_items\<close> returns, and never raises: the empty list
  when the path \<open>response\<close>, \<open>body\<close>, \<open>items\<close> is absent or its value is false-like; the value
  itself when it is a list; for a mapping, the list under its key \<open>item\<close>, or the one-element
  list of the mapping under \<open>item\<close>; and the empty list in every other case.
\<close>

theorem safe_get_items_extracts:
  "safe_get_items d =
     Inr (case items_at d of
            None \<Rightarrow> []
          | Some v \<Rightarrow>
              if \<not> truthy v then []
              else (case v of
                      PList xs \<Rightarrow> xs
                    | PDict kvs \<Rightarrow>
                        (case map_of kvs (ascii ''item'') of
                           Some (PList ys) \<Rightarrow> ys
                         | Some (PDict m) \<Rightarrow> [PDict m]
                         | _ \<Rightarrow> [])
                    | _ \<Rightarrow> []))"
  unfolding safe_get_items_def safe_get_items_try_def items_at_def field_def
  by (auto split: pyval.splits option.splits sum.splits simp: Option.bind_def)

text \<open>
  The shapes of the envelope: no \<open>items\<close>, empty \<open>items\<close>, a list, a single object under
  \<open>item\<close>, a list under \<open>item\<close>; and envelopes that are not mappings where one is expected.
\<close>

lemma safe_get_items_shapes:
  "safe_get_items (PDict [(ascii ''response'', PDict [(ascii ''body'', PDict [])])]) = Inr []"
  "safe_get_items (envelope (PList [])) = Inr []"
  "safe_get_items (envelope (PList (x # xs))) = Inr (x # xs)"
  "safe_get_items (envelope (PDict [(ascii ''item'', PDict m)])) = Inr [PDict m]"
  "safe_get_items (envelope (PDict [(ascii ''item'', PList ys)])) = Inr ys"
  "safe_get_items (PDict []) = Inr []"
  "safe_get_items (PList zs) = Inr []"
  "safe_get_items (PDict [(ascii ''response'', PDict [(ascii ''body'', PStr s)])]) = Inr []"
  "safe_get_items (envelope (PDict [(ascii ''item'', PStr s)])) = Inr []"
  "safe_get_items (envelope (PInt 7)) = Inr []"
  by (simp_all add: safe_get_items_def safe_get_items_try_def envelope_def ascii_keys_differ)

section \<open>Properties of the strings\<close>








lemma starts_with_append: "starts_with (p @ b) p"
  by (induction p) auto

lemma contains_append: "contains (a @ p @ b) p"
proof (induction a)
  case Nil
  show ?case by (cases "p @ b") (use starts_with_append[of p b] in auto)
next
  case (Cons x a)
  then show ?case by simp
qed

section \<open>Properties of parse_money\<close>





section \<open>Properties of the tables\<close>



















section \<open>Properties of the derived price\<close>








section \<open>Properties of the price range\<close>





section \<open>Properties of the contract-method filter\<close>








section \<open>The examples\<close>












lemma negotiated_examples:
  "map negotiated method_recs = [False, True, True]"
  "negotiated no_method_rec = False"
  by (simp_all add: method_recs_def no_method_rec_def negotiated_def text_at_def
      private_marker_def ascii_def)








section \<open>Properties of a price with a fraction\<close>












section \<open>Properties of search_bids\<close>

lemma search_bids_empty_key: "search_bids rt w [] c = (Inr (msg_no_key, empty_frame), w)"
  by (simp add: search_bids_def)

lemma search_bids_sent:
  "sent (snd (search_bids rt w key c)) =
     (if key = [] then sent w else sent w @ [build_params key c])"
  by (auto simp: search_bids_def requests_get_def Let_def split: prod.splits sum.splits)

lemma search_bids_try:
  assumes "key \<noteq> []"
  shows "fst (search_bids rt w key c) =
     (case try_block rt c (respond w (build_params key c)) of
        (log_lines, Inr result) \<Rightarrow> Inr result
      | (log_lines, Inl e) \<Rightarrow>
          Inr (join_lines (log_lines @ [msg_exception @ exn_text rt e]), empty_frame))"
  using assms
  by (auto simp: search_bids_def requests_get_def Let_def split: prod.splits sum.splits)

lemma search_bids_returns: "\<exists>log_text df. fst (search_bids rt w key c) = Inr (log_text, df)"
  by (auto simp: search_bids_def requests_get_def Let_def split: prod.splits sum.splits)

lemma try_block_raised: "try_block rt c (Raised e) = ([], Inl e)"
  by (simp add: try_block_def)

lemma try_block_status:
  "st \<noteq> 200 \<Longrightarrow> try_block rt c (Reply st txt decoded) =
     ([msg_request_done, msg_http_error @ str_int st],
      Inr (join_lines [msg_request_done, msg_http_error @ str_int st], empty_frame))"
  by (simp add: try_block_def Let_def)

lemma try_block_decode_error:
  "try_block rt c (Reply 200 txt (Inl JSONDecodeError)) =
     ([msg_request_done, msg_json_failed, take 200 txt],
      Inr (join_lines [msg_request_done, msg_json_failed, take 200 txt], empty_frame))"
  by (simp add: try_block_def Let_def)

lemma try_block_json_raises:
  "e \<noteq> JSONDecodeError \<Longrightarrow>
   try_block rt c (Reply 200 txt (Inl e)) = ([msg_request_done], Inl e)"
  by (simp add: try_block_def Let_def)

lemma try_block_data:
  "try_block rt c (Reply 200 txt (Inr data)) = shape_response rt c data [msg_request_done]"
  by (simp add: try_block_def Let_def)

lemma shape_response_header_raises:
  "read_header data = Inl e \<Longrightarrow> shape_response rt c data log_lines = (log_lines, Inl e)"
  by (simp add: shape_response_def Let_def)

lemma shape_response_bad_code:
  "read_header data = Inr (code, msg) \<Longrightarrow> code \<noteq> PStr (ascii ''00'') \<Longrightarrow>
   shape_response rt c data log_lines =
     (log_lines @ [msg_api_code @ py_str rt code @ msg_api_message @ py_str rt msg, msg_bad_code],
      Inr (join_lines (log_lines @
             [msg_api_code @ py_str rt code @ msg_api_message @ py_str rt msg, msg_bad_code]),
           empty_frame))"
  by (simp add: shape_response_def Let_def)

lemma shape_response_ok:
  "read_header data = Inr (PStr (ascii ''00''), msg) \<Longrightarrow>
   shape_response rt c data log_lines =
     shape_body rt c data
       (log_lines @ [msg_api_code @ ascii ''00'' @ msg_api_message @ py_str rt msg])"
  by (simp add: shape_response_def Let_def)

lemma shape_body_no_items:
  "safe_get_items data = Inr [] \<Longrightarrow>
   shape_body rt c data log_lines =
     (log_lines @ [msg_no_data], Inr (join_lines (log_lines @ [msg_no_data]), empty_frame))"
  by (simp add: shape_body_def Let_def)

lemma shape_body_records:
  "safe_get_items data = Inr items \<Longrightarrow> items \<noteq> [] \<Longrightarrow> to_records items = Some recs \<Longrightarrow>
   shape_body rt c data log_lines = shape_records rt c recs log_lines"
  by (simp add: shape_body_def shape_items_def)

lemma shape_records_none_left:
  "frame_empty (fst (contract_stage c (priced rt c recs log_lines))) \<Longrightarrow>
   shape_records rt c recs log_lines =
     (snd (contract_stage c (priced rt c recs log_lines)) @ [msg_none_left],
      Inr (join_lines (snd (contract_stage c (priced rt c recs log_lines)) @ [msg_none_left]),
           empty_frame))"
  by (simp add: shape_records_def Let_def)

lemma bad_code_log_contains:
  "contains (join_lines [msg_request_done, msg_api_code @ code @ msg_api_message @ msg,
      msg_bad_code]) code"
  "contains (join_lines [msg_request_done, msg_api_code @ code @ msg_api_message @ msg,
      msg_bad_code]) msg"
proof -
  have "join_lines [msg_request_done, msg_api_code @ code @ msg_api_message @ msg, msg_bad_code]
        = (msg_request_done @ [10] @ msg_api_code) @ code @
          (msg_api_message @ msg @ [10] @ msg_bad_code)"
    by simp
  then show "contains (join_lines [msg_request_done,
      msg_api_code @ code @ msg_api_message @ msg, msg_bad_code]) code"
    using contains_append by metis
  have "join_lines [msg_request_done, msg_api_code @ code @ msg_api_message @ msg, msg_bad_code]
        = (msg_request_done @ [10] @ msg_api_code @ code @ msg_api_message) @ msg @
          ([10] @ msg_bad_code)"
    by simp
  then show "contains (join_lines [msg_request_done,
      msg_api_code @ code @ msg_api_message @ msg, msg_bad_code]) msg"
    using contains_append by metis
qed

text \<open>
  C6. \<open>search_bids\<close> returns a pair for every input: no exception leaves it. A failure
  of the transport, a status other than 200, a body that is not JSON, a result code other
  than 00, no items and no row left after the filters each end in a log and the empty
  table; every other exception of the \<open>try\<close> block is caught at the end, and its text is
  appended to the log after the failure marker.
\<close>

theorem search_bids_absorbs:
  "(\<exists>log_text df. fst (search_bids rt w key c) = Inr (log_text, df)) \<and>
   (key \<noteq> [] \<longrightarrow>
     (\<forall>e. respond w (build_params key c) = Raised e \<longrightarrow>
        fst (search_bids rt w key c) = Inr (msg_exception @ exn_text rt e, empty_frame)) \<and>
     (\<forall>st txt decoded. respond w (build_params key c) = Reply st txt decoded \<and> st \<noteq> 200 \<longrightarrow>
        fst (search_bids rt w key c) =
          Inr (join_lines [msg_request_done, msg_http_error @ str_int st], empty_frame)) \<and>
     (\<forall>txt. respond w (build_params key c) = Reply 200 txt (Inl JSONDecodeError) \<longrightarrow>
        fst (search_bids rt w key c) =
          Inr (join_lines [msg_request_done, msg_json_failed, take 200 txt], empty_frame)) \<and>
     (\<forall>txt e. respond w (build_params key c) = Reply 200 txt (Inl e) \<and> e \<noteq> JSONDecodeError \<longrightarrow>
        fst (search_bids rt w key c) =
          Inr (join_lines [msg_request_done, msg_exception @ exn_text rt e], empty_frame)) \<and>
     (\<forall>txt data e. respond w (build_params key c) = Reply 200 txt (Inr data) \<and>
          read_header data = Inl e \<longrightarrow>
        fst (search_bids rt w key c) =
          Inr (join_lines [msg_request_done, msg_exception @ exn_text rt e], empty_frame)) \<and>
     (\<forall>txt data code msg. respond w (build_params key c) = Reply 200 txt (Inr data) \<and>
          read_header data = Inr (code, msg) \<and> code \<noteq> PStr (ascii ''00'') \<longrightarrow>
        (\<exists>log_text. fst (search_bids rt w key c) = Inr (log_text, empty_frame))) \<and>
     (\<forall>txt data msg. respond w (build_params key c) = Reply 200 txt (Inr data) \<and>
          read_header data = Inr (PStr (ascii ''00''), msg) \<and> safe_get_items data = Inr [] \<longrightarrow>
        fst (search_bids rt w key c) =
          Inr (join_lines [msg_request_done,
                 msg_api_code @ ascii ''00'' @ msg_api_message @ py_str rt msg, msg_no_data],
               empty_frame)) \<and>
     (\<forall>txt data msg items recs. respond w (build_params key c) = Reply 200 txt (Inr data) \<and>
          read_header data = Inr (PStr (ascii ''00''), msg) \<and> safe_get_items data = Inr items \<and>
          items \<noteq> [] \<and> to_records items = Some recs \<and>
          frame_empty (fst (contract_stage c (priced rt c recs
            [msg_request_done, msg_api_code @ ascii ''00'' @ msg_api_message @ py_str rt msg]))) \<longrightarrow>
        (\<exists>log_text. fst (search_bids rt w key c) = Inr (log_text, empty_frame))) \<and>
     (\<forall>log_lines e. try_block rt c (respond w (build_params key c)) = (log_lines, Inl e) \<longrightarrow>
        fst (search_bids rt w key c) =
          Inr (join_lines (log_lines @ [msg_exception @ exn_text rt e]), empty_frame)))"
  apply (intro conjI impI allI)
  subgoal by (rule search_bids_returns)
  subgoal by (simp add: search_bids_try try_block_raised)
  subgoal by (simp add: search_bids_try try_block_status)
  subgoal by (simp add: search_bids_try try_block_decode_error)
  subgoal by (simp add: search_bids_try try_block_json_raises)
  subgoal by (simp add: search_bids_try try_block_data shape_response_header_raises)
  subgoal by (simp add: search_bids_try try_block_data shape_response_bad_code)
  subgoal by (simp add: search_bids_try try_block_data shape_response_ok shape_body_no_items)
  subgoal
    by (simp add: search_bids_try try_block_data shape_response_ok shape_body_records
        shape_records_none_left)
  subgoal by (simp add: search_bids_try)
  done

lemma read_header_examples:
  "read_header doc_code99 = Inr (PStr (ascii ''99''), PStr (ascii ''ERROR''))"
  "read_header doc_no_header = Inl AttributeError"
  "read_header doc_no_items = Inr (PStr (ascii ''00''), PStr (ascii ''OK''))"
  "safe_get_items doc_no_items = Inr []"
  "read_header (PList []) = Inl AttributeError"
  by (simp_all add: read_header_def doc_code99_def doc_no_header_def doc_no_items_def
      safe_get_items_def safe_get_items_try_def ascii_def)

lemma codes_differ: "PStr (ascii ''99'') \<noteq> PStr (ascii ''00'')"
  by (simp add: ascii_def)

lemma respond_serving: "respond (serving reply) p = reply"
  by (simp add: serving_def)

theorem search_bids_absorbs_witness:
  "fst (search_bids rt0 (serving (Raised (OtherException (ascii ''timeout'')))) (ascii ''KEY'') c0) =
     Inr (msg_exception @ exn_text rt0 (OtherException (ascii ''timeout'')), empty_frame) \<and>
   fst (search_bids rt0 (serving (Reply 500 [] (Inl JSONDecodeError))) (ascii ''KEY'') c0) =
     Inr (join_lines [msg_request_done, msg_http_error @ str_int 500], empty_frame) \<and>
   fst (search_bids rt0 (serving (Reply 200 (ascii ''<html>'') (Inl JSONDecodeError))) (ascii ''KEY'') c0) =
     Inr (join_lines [msg_request_done, msg_json_failed, take 200 (ascii ''<html>'')], empty_frame) \<and>
   fst (search_bids rt0 (serving (Reply 200 [] (Inr doc_no_header))) (ascii ''KEY'') c0) =
     Inr (join_lines [msg_request_done, msg_exception @ exn_text rt0 AttributeError], empty_frame) \<and>
   (\<exists>log_text. fst (search_bids rt0 (serving (Reply 200 [] (Inr doc_code99))) (ascii ''KEY'') c0) =
     Inr (log_text, empty_frame)) \<and>
   fst (search_bids rt0 (serving (Reply 200 [] (Inr doc_no_items))) (ascii ''KEY'') c0) =
     Inr (join_lines [msg_request_done,
            msg_api_code @ ascii ''00'' @ msg_api_message @ py_str rt0 (PStr (ascii ''OK'')),
            msg_no_data], empty_frame)"
proof -
  have k: "ascii ''KEY'' \<noteq> []" by (simp add: ascii_def)
  note t = search_bids_absorbs[of rt0 _ "ascii ''KEY''" c0, THEN conjunct2, rule_format, OF k]
  have 1: "fst (search_bids rt0 (serving (Raised (OtherException (ascii ''timeout'')))) (ascii ''KEY'') c0) =
     Inr (msg_exception @ exn_text rt0 (OtherException (ascii ''timeout'')), empty_frame)"
    using t[of "serving (Raised (OtherException (ascii ''timeout'')))"]
    by (simp add: respond_serving)
  have 2: "fst (search_bids rt0 (serving (Reply 500 [] (Inl JSONDecodeError))) (ascii ''KEY'') c0) =
     Inr (join_lines [msg_request_done, msg_http_error @ str_int 500], empty_frame)"
    using t[of "serving (Reply 500 [] (Inl JSONDecodeError))"]
    by (simp add: respond_serving)
  have 3: "fst (search_bids rt0 (serving (Reply 200 (ascii ''<html>'') (Inl JSONDecodeError))) (ascii ''KEY'') c0) =
     Inr (join_lines [msg_request_done, msg_json_failed, take 200 (ascii ''<html>'')], empty_frame)"
    using t[of "serving (Reply 200 (ascii ''<html>'') (Inl JSONDecodeError))"]
    by (simp add: respond_serving)
  have 4: "fst (search_bids rt0 (serving (Reply 200 [] (Inr doc_no_header))) (ascii ''KEY'') c0) =
     Inr (join_lines [msg_request_done, msg_exception @ exn_text rt0 AttributeError], empty_frame)"
    using t[of "serving (Reply 200 [] (Inr doc_no_header))"] read_header_examples(2)
    by (simp add: respond_serving)
  have 5: "\<exists>log_text. fst (search_bids rt0 (serving (Reply 200 [] (Inr doc_code99))) (ascii ''KEY'') c0) =
     Inr (log_text, empty_frame)"
    using t[of "serving (Reply 200 [] (Inr doc_code99))"] read_header_examples(1) codes_differ
    by (simp add: respond_serving)
  have 6: "fst (search_bids rt0 (serving (Reply 200 [] (Inr doc_no_items))) (ascii ''KEY'') c0) =
     Inr (join_lines [msg_request_done,
            msg_api_code @ ascii ''00'' @ msg_api_message @ py_str rt0 (PStr (ascii ''OK'')),
            msg_no_data], empty_frame)"
    using t[of "serving (Reply 200 [] (Inr doc_no_items))"] read_header_examples(3,4)
    by (simp add: respond_serving)
  from 1 2 3 4 5 6 show ?thesis by blast
qed

text \<open>
  C7. When the body is decoded and the result code read from its header is not the string
  \<open>00\<close>, \<open>search_bids\<close> returns the empty table, and the log holds the code and the
  message as the header gave them; nothing of the body is looked at. With the code \<open>00\<close> the
  result is that of the extraction of the items (\<open>shape_body\<close>). When the header cannot
  be read, the table is empty as well.
\<close>

theorem non_success_code_returns_empty:
  "key \<noteq> [] \<and> respond w (build_params key c) = Reply 200 txt (Inr data) \<longrightarrow>
     (\<forall>code msg. read_header data = Inr (code, msg) \<and> code \<noteq> PStr (ascii ''00'') \<longrightarrow>
        fst (search_bids rt w key c) =
          Inr (join_lines [msg_request_done,
                 msg_api_code @ py_str rt code @ msg_api_message @ py_str rt msg, msg_bad_code],
               empty_frame) \<and>
        contains (join_lines [msg_request_done,
                 msg_api_code @ py_str rt code @ msg_api_message @ py_str rt msg, msg_bad_code])
          (py_str rt code) \<and>
        contains (join_lines [msg_request_done,
                 msg_api_code @ py_str rt code @ msg_api_message @ py_str rt msg, msg_bad_code])
          (py_str rt msg)) \<and>
     (\<forall>msg. read_header data = Inr (PStr (ascii ''00''), msg) \<longrightarrow>
        fst (search_bids rt w key c) =
          (case shape_body rt c data
                  [msg_request_done, msg_api_code @ ascii ''00'' @ msg_api_message @ py_str rt msg] of
             (log_lines, Inr result) \<Rightarrow> Inr result
           | (log_lines, Inl e) \<Rightarrow>
               Inr (join_lines (log_lines @ [msg_exception @ exn_text rt e]), empty_frame))) \<and>
     (\<forall>e. read_header data = Inl e \<longrightarrow>
        fst (search_bids rt w key c) =
          Inr (join_lines [msg_request_done, msg_exception @ exn_text rt e], empty_frame))"
  apply (intro conjI impI allI)
  subgoal by (simp add: search_bids_try try_block_data shape_response_bad_code)
  subgoal by (rule bad_code_log_contains)
  subgoal by (rule bad_code_log_contains)
  subgoal by (simp add: search_bids_try try_block_data shape_response_ok)
  subgoal by (simp add: search_bids_try try_block_data shape_response_header_raises)
  done

theorem non_success_code_returns_empty_witness:
  "ascii ''KEY'' \<noteq> [] \<and>
   respond (serving (Reply 200 [] (Inr doc_code99))) (build_params (ascii ''KEY'') c0) =
     Reply 200 [] (Inr doc_code99) \<and>
   read_header doc_code99 = Inr (PStr (ascii ''99''), PStr (ascii ''ERROR'')) \<and>
   PStr (ascii ''99'') \<noteq> PStr (ascii ''00'') \<and>
   fst (search_bids rt0 (serving (Reply 200 [] (Inr doc_code99))) (ascii ''KEY'') c0) =
     Inr (join_lines [msg_request_done,
            msg_api_code @ ascii ''99'' @ msg_api_message @ ascii ''ERROR'', msg_bad_code],
          empty_frame) \<and>
   contains (join_lines [msg_request_done,
            msg_api_code @ ascii ''99'' @ msg_api_message @ ascii ''ERROR'', msg_bad_code])
     (ascii ''99'') \<and>
   contains (join_lines [msg_request_done,
            msg_api_code @ ascii ''99'' @ msg_api_message @ ascii ''ERROR'', msg_bad_code])
     (ascii ''ERROR'')"
proof -
  have k: "ascii ''KEY'' \<noteq> []" by (simp add: ascii_def)
  have r: "respond (serving (Reply 200 [] (Inr doc_code99))) (build_params (ascii ''KEY'') c0) =
     Reply 200 [] (Inr doc_code99)"
    by (rule respond_serving)
  from non_success_code_returns_empty[of "ascii ''KEY''" "serving (Reply 200 [] (Inr doc_code99))"
      c0 "[]" doc_code99 rt0] k r read_header_examples(1) codes_differ
  show ?thesis
    by simp
qed

text \<open>
  C9 as stated fails: a credential of white space only is blank, yet it is not the empty
  string, so the request is sent with it and the log speaks of the HTTP status, not of a
  missing credential.
\<close>

theorem blank_credential_is_sent:
  "list_all isspace [32] \<and>
   sent (snd (search_bids rt0 (serving (Reply 500 [] (Inl JSONDecodeError))) [32] c0)) =
     [[(ascii ''serviceKey'', [32]), (ascii ''pageNo'', ascii ''1''),
       (ascii ''numOfRows'', ascii ''100''), (ascii ''inqryDiv'', ascii ''1''),
       (ascii ''type'', ascii ''json'')]] \<and>
   fst (search_bids rt0 (serving (Reply 500 [] (Inl JSONDecodeError))) [32] c0) =
     Inr (join_lines [msg_request_done, msg_http_error @ ascii ''500''], empty_frame) \<and>
   join_lines [msg_request_done, msg_http_error @ ascii ''500''] \<noteq> msg_no_key"
proof -
  have p: "build_params [32] c0 =
     [(ascii ''serviceKey'', [32]), (ascii ''pageNo'', ascii ''1''),
       (ascii ''numOfRows'', ascii ''100''), (ascii ''inqryDiv'', ascii ''1''),
       (ascii ''type'', ascii ''json'')]"
    by (simp add: build_params_def c0_def Let_def strip_def str_int_def str_nat.simps ascii_def)
  have s: "str_int 500 = ascii ''500''"
    by (simp add: str_int_def str_nat.simps ascii_def)
  have "fst (search_bids rt0 (serving (Reply 500 [] (Inl JSONDecodeError))) [32] c0) =
     Inr (join_lines [msg_request_done, msg_http_error @ ascii ''500''], empty_frame)"
    by (simp add: search_bids_try respond_serving try_block_status s)
  moreover have "join_lines [msg_request_done, msg_http_error @ ascii ''500''] \<noteq> msg_no_key"
    by (simp add: msg_request_done_def msg_no_key_def)
  ultimately show ?thesis
    by (simp add: search_bids_sent serving_def p isspace_def)
qed

text \<open>
  C9, amended. With the empty credential \<open>search_bids\<close> returns the line that the
  SERVICE_KEY is not set and the empty table, and the world is as before: no request was
  sent. With any other credential exactly one request is sent, with the parameters built
  from it.
\<close>

theorem empty_credential_short_circuits:
  "search_bids rt w [] c = (Inr (msg_no_key, empty_frame), w) \<and>
   sent (snd (search_bids rt w key c)) =
     (if key = [] then sent w else sent w @ [build_params key c])"
  by (simp add: search_bids_empty_key search_bids_sent)

section \<open>Properties of the request parameters\<close>

lemma ascii_eq_iff: "ascii s = ascii t \<longleftrightarrow> s = t"
  by (simp add: ascii_def inj_map_eq_map[OF inj_of_char])

lemma if_snoc: "(if b then xs @ [p] else xs) = xs @ (if b then [p] else [])"
  by simp

lemma build_params_append:
  "build_params key c =
     [(ascii ''serviceKey'', key),
      (ascii ''pageNo'', str_int (page_no c)),
      (ascii ''numOfRows'', str_int (num_rows c)),
      (ascii ''inqryDiv'', str_int (inqry_div c)),
      (ascii ''type'', ascii ''json'')] @
     (if normalize_date_str (start_date c) \<noteq> []
      then [(ascii ''inqryBgnDt'',
             filter (\<lambda>x. x \<noteq> 45) (normalize_date_str (start_date c)) @ ascii ''0000'')]
      else []) @
     (if normalize_date_str (end_date c) \<noteq> []
      then [(ascii ''inqryEndDt'',
             filter (\<lambda>x. x \<noteq> 45) (normalize_date_str (end_date c)) @ ascii ''2359'')]
      else []) @
     (if bid_name c \<noteq> [] then [(ascii ''bidNtceNm'', strip (bid_name c))] else []) @
     (if industry_name c \<noteq> [] then [(ascii ''indstrytyNm'', strip (industry_name c))] else []) @
     (if strip (region_code c) \<noteq> []
      then [(ascii ''prtcptLmtRgnCd'',
             if length (strip (region_code c)) = 1 then 48 # strip (region_code c)
             else strip (region_code c))]
      else [])"
  unfolding build_params_def Let_def if_snoc
  by (simp add: ascii_def)


lemma build_params_lookup:
  "map_of (build_params key c) (ascii ''serviceKey'') = Some key"
  "map_of (build_params key c) (ascii ''pageNo'') = Some (str_int (page_no c))"
  "map_of (build_params key c) (ascii ''numOfRows'') = Some (str_int (num_rows c))"
  "map_of (build_params key c) (ascii ''inqryDiv'') = Some (str_int (inqry_div c))"
  "map_of (build_params key c) (ascii ''type'') = Some (ascii ''json'')"
  "map_of (build_params key c) (ascii ''inqryBgnDt'') =
     (if normalize_date_str (start_date c) = [] then None
      else Some (filter (\<lambda>x. x \<noteq> 45) (normalize_date_str (start_date c)) @ ascii ''0000''))"
  "map_of (build_params key c) (ascii ''inqryEndDt'') =
     (if normalize_date_str (end_date c) = [] then None
      else Some (filter (\<lambda>x. x \<noteq> 45) (normalize_date_str (end_date c)) @ ascii ''2359''))"
  "map_of (build_params key c) (ascii ''bidNtceNm'') =
     (if bid_name c = [] then None else Some (strip (bid_name c)))"
  "map_of (build_params key c) (ascii ''indstrytyNm'') =
     (if industry_name c = [] then None else Some (strip (industry_name c)))"
  "map_of (build_params key c) (ascii ''prtcptLmtRgnCd'') =
     (if strip (region_code c) = [] then None
      else Some (if length (strip (region_code c)) = 1 then 48 # strip (region_code c)
                 else strip (region_code c)))"
  unfolding build_params_append
  by (simp_all add: ascii_eq_iff map_add_def)

text \<open>
  C3 at a title keyword (or an industry keyword) of three spaces: the keyword is tested
  before it is trimmed, so the parameter is in the mapping with the empty string as its
  value. The region code and a date given as text are trimmed first, and omitted.
\<close>

theorem blank_keyword_is_sent_empty:
  "list_all isspace (ascii ''   '') \<and>
   map_of (build_params (ascii ''KEY'') (c0\<lparr>bid_name := ascii ''   ''\<rparr>)) (ascii ''bidNtceNm'') =
     Some [] \<and>
   map_of (build_params (ascii ''KEY'') (c0\<lparr>industry_name := ascii ''   ''\<rparr>))
     (ascii ''indstrytyNm'') = Some [] \<and>
   map_of (build_params (ascii ''KEY'') (c0\<lparr>region_code := ascii ''   ''\<rparr>))
     (ascii ''prtcptLmtRgnCd'') = None \<and>
   map_of (build_params (ascii ''KEY'') (c0\<lparr>start_date := DateText (ascii ''   '')\<rparr>))
     (ascii ''inqryBgnDt'') = None"
proof -
  have s: "strip (ascii ''   '') = []" "list_all isspace (ascii ''   '')" "ascii ''   '' \<noteq> []"
    by (simp_all add: strip_def isspace_def ascii_def)
  show ?thesis
    by (simp add: build_params_lookup s)
qed

end
